theory Spec2Isabelle
  imports Complex_Main "HOL-Library.Char_ord" "HOL-Library.List_Lexorder"
    "HOL-Library.Monad_Syntax"
begin

section \<open>The Geocache chaincode: records\<close>

text \<open>
  The chaincode \<^verbatim>\<open>src/chaincodes/geocache/src/geocache.ts\<close> (its first listing, the one
  with \<^verbatim>\<open>InitLedger\<close>) keeps three kinds of record in the Fabric world state: cache
  sites, visit logs and trackables. The classes of \<^verbatim>\<open>cache.ts\<close>, \<^verbatim>\<open>visitlog.ts\<close> and
  \<^verbatim>\<open>trackable.ts\<close> become records with the fields of the source.

  A field declared \<^verbatim>\<open>number\<close> holds a JavaScript number. The finite ones are taken as
  reals (the sign of zero is not kept), \<open>NaN\<close> and the two infinities are values of their
  own, and \<open>NullNumber\<close> is the value \<^verbatim>\<open>null\<close> that such a field holds after
  \<^verbatim>\<open>JSON.parse\<close> has read back a number that \<^verbatim>\<open>JSON.stringify\<close> wrote as \<^verbatim>\<open>null\<close>:
  the cast \<^verbatim>\<open>as Cache\<close> checks nothing.
\<close>

datatype number = Finite real | NaN | PosInfinity | NegInfinity | NullNumber

record Cache =
  ID :: string
  Name :: string
  Description :: string
  GPSX :: number
  GPSY :: number
  Report :: string
  Pass :: string
  Maintainer :: string

text \<open>\<^verbatim>\<open>Trackables?: string[]\<close> is optional: \<open>None\<close> is \<^verbatim>\<open>undefined\<close>.\<close>

record VisitLog =
  ID :: string
  Trackables :: "string list option"
  User :: string
  Cache :: string
  Time :: string

record Trackable =
  ID :: string
  Name :: string
  Inserted :: bool
  VisitLog :: string

section \<open>Serialization\<close>

text \<open>
  A record is written as \<^verbatim>\<open>Buffer.from(stringify(sortKeys(record)))\<close> and read back with
  \<^verbatim>\<open>JSON.parse(data.toString())\<close>. The buffer is represented by the JSON document whose
  text it holds, an object being the list of its members in the order they are written.
  The text itself (digits of a number, escapes of a string, UTF-8) is below this level.
\<close>

datatype json =
    JNull
  | JBool bool
  | JNum real
  | JStr string
  | JArr "json list"
  | JObj "(string \<times> json) list"

text \<open>
  The values that the fields of the three classes hold, and a plain object as the list
  of its own properties in insertion order.
\<close>

datatype jsvalue =
    Undefined
  | Str string
  | Num number
  | Bool bool
  | StrArray "string list"

type_synonym jsobject = "(string \<times> jsvalue) list"

text \<open>
  \<^verbatim>\<open>sortKeys\<close> is the package sort-keys-recursive: the keys of the object are put in
  ascending order of their code units, and so are the elements of every array in it
  (the package sorts arrays with \<^verbatim>\<open>Array.prototype.sort\<close> unless told otherwise).
\<close>

fun sortValue :: "jsvalue \<Rightarrow> jsvalue" where
  "sortValue (StrArray xs) = StrArray (sort xs)"
| "sortValue v = v"

definition sortKeys :: "jsobject \<Rightarrow> jsobject" where
  "sortKeys obj = sort_key fst (map (\<lambda>(k, v). (k, sortValue v)) obj)"

text \<open>
  \<^verbatim>\<open>stringify\<close> is the package json-stringify-deterministic: keys in ascending order,
  a property whose value is \<^verbatim>\<open>undefined\<close> left out, and every value written as
  \<^verbatim>\<open>JSON.stringify\<close> writes it: a number that is not finite becomes \<^verbatim>\<open>null\<close>.
\<close>

fun jsonNumber :: "number \<Rightarrow> json" where
  "jsonNumber (Finite r) = JNum r"
| "jsonNumber n = JNull"

fun jsonValue :: "jsvalue \<Rightarrow> json option" where
  "jsonValue Undefined = None"
| "jsonValue (Str s) = Some (JStr s)"
| "jsonValue (Num n) = Some (jsonNumber n)"
| "jsonValue (Bool b) = Some (JBool b)"
| "jsonValue (StrArray xs) = Some (JArr (map JStr xs))"

fun member :: "string \<times> jsvalue \<Rightarrow> (string \<times> json) option" where
  "member (k, v) = map_option (Pair k) (jsonValue v)"

definition stringify :: "jsobject \<Rightarrow> json" where
  "stringify obj = JObj (List.map_filter member (sort_key fst obj))"

text \<open>The object literals of the source, property by property.\<close>

definition objectOfCache :: "Cache \<Rightarrow> jsobject" where
  "objectOfCache cache =
     [(''ID'', Str (Cache.ID cache)), (''Name'', Str (Cache.Name cache)),
      (''Description'', Str (Description cache)),
      (''GPSX'', Num (GPSX cache)), (''GPSY'', Num (GPSY cache)),
      (''Report'', Str (Report cache)), (''Pass'', Str (Pass cache)),
      (''Maintainer'', Str (Maintainer cache))]"

definition objectOfLog :: "VisitLog \<Rightarrow> jsobject" where
  "objectOfLog visitLog =
     [(''ID'', Str (VisitLog.ID visitLog)),
      (''Trackables'', (case Trackables visitLog of None \<Rightarrow> Undefined | Some ts \<Rightarrow> StrArray ts)),
      (''User'', Str (User visitLog)), (''Cache'', Str (Cache visitLog)),
      (''Time'', Str (Time visitLog))]"

definition objectOfTrackable :: "Trackable \<Rightarrow> jsobject" where
  "objectOfTrackable trackable =
     [(''ID'', Str (Trackable.ID trackable)), (''Name'', Str (Trackable.Name trackable)),
      (''Inserted'', Bool (Inserted trackable)), (''VisitLog'', Str (VisitLog trackable))]"

definition serializeCache :: "Cache \<Rightarrow> json" where
  "serializeCache cache = stringify (sortKeys (objectOfCache cache))"

definition serializeLog :: "VisitLog \<Rightarrow> json" where
  "serializeLog visitLog = stringify (sortKeys (objectOfLog visitLog))"

definition serializeTrackable :: "Trackable \<Rightarrow> json" where
  "serializeTrackable trackable = stringify (sortKeys (objectOfTrackable trackable))"

text \<open>
  Errors are the \<^verbatim>\<open>Error\<close> objects the source throws, one constructor for each message
  with the identifiers the message quotes. \<open>SyntaxError\<close> is what \<^verbatim>\<open>JSON.parse\<close> throws
  on the empty text. \<open>IllTyped\<close> is not thrown by the source: it marks a document that
  has not the shape of the class it is cast to, where the source goes on with an object
  whose fields are \<^verbatim>\<open>undefined\<close> or of another type, and this development does not
  follow it.
\<close>

datatype error =
    CacheAlreadyExists string
  | CacheNotExist string
  | LogAlreadyExists string
  | LogNotExist string
  | TrackableAlreadyExists string
  | TrackableNotExist string
  | NotMaintainer
  | WrongPass
  | LogNotMadeBy string string
  | AlreadyInserted string
  | NotInserted string
  | NotOwnedBy string string
  | LogBefore string string
  | DifferentCaches string string
  | UserNotFound
  | SyntaxError
  | IllTyped

text \<open>
  Reading a property of a parsed document. Where a key occurs twice in the text,
  \<^verbatim>\<open>JSON.parse\<close> keeps the last occurrence.
\<close>

fun property :: "json \<Rightarrow> string \<Rightarrow> json option" where
  "property (JObj kvs) k = map_of (rev kvs) k"
| "property j k = None"

fun asString :: "json option \<Rightarrow> string option" where
  "asString (Some (JStr s)) = Some s"
| "asString j = None"

fun asNumber :: "json option \<Rightarrow> number option" where
  "asNumber (Some (JNum r)) = Some (Finite r)"
| "asNumber (Some JNull) = Some NullNumber"
| "asNumber j = None"

fun asBoolean :: "json option \<Rightarrow> bool option" where
  "asBoolean (Some (JBool b)) = Some b"
| "asBoolean j = None"

fun asStrings :: "json list \<Rightarrow> string list option" where
  "asStrings [] = Some []"
| "asStrings (JStr s # js) = map_option (Cons s) (asStrings js)"
| "asStrings (j # js) = None"

fun asOptionalStrings :: "json option \<Rightarrow> string list option option" where
  "asOptionalStrings None = Some None"
| "asOptionalStrings (Some (JArr js)) = map_option Some (asStrings js)"
| "asOptionalStrings j = None"

definition castCache :: "json \<Rightarrow> Cache option" where
  "castCache j = do {
     i \<leftarrow> asString (property j ''ID'');
     n \<leftarrow> asString (property j ''Name'');
     d \<leftarrow> asString (property j ''Description'');
     x \<leftarrow> asNumber (property j ''GPSX'');
     y \<leftarrow> asNumber (property j ''GPSY'');
     r \<leftarrow> asString (property j ''Report'');
     p \<leftarrow> asString (property j ''Pass'');
     m \<leftarrow> asString (property j ''Maintainer'');
     Some \<lparr>Cache.ID = i, Name = n, Description = d, GPSX = x, GPSY = y,
            Report = r, Pass = p, Maintainer = m\<rparr>
   }"

definition castLog :: "json \<Rightarrow> VisitLog option" where
  "castLog j = do {
     i \<leftarrow> asString (property j ''ID'');
     ts \<leftarrow> asOptionalStrings (property j ''Trackables'');
     u \<leftarrow> asString (property j ''User'');
     c \<leftarrow> asString (property j ''Cache'');
     t \<leftarrow> asString (property j ''Time'');
     Some \<lparr>VisitLog.ID = i, Trackables = ts, User = u, Cache = c, Time = t\<rparr>
   }"

definition castTrackable :: "json \<Rightarrow> Trackable option" where
  "castTrackable j = do {
     i \<leftarrow> asString (property j ''ID'');
     n \<leftarrow> asString (property j ''Name'');
     b \<leftarrow> asBoolean (property j ''Inserted'');
     v \<leftarrow> asString (property j ''VisitLog'');
     Some \<lparr>Trackable.ID = i, Name = n, Inserted = b, VisitLog = v\<rparr>
   }"

text \<open>
  What \<^verbatim>\<open>getState\<close> hands over: \<open>None\<close> is the empty byte array that Fabric returns
  for a key that is not in the world state.
\<close>

type_synonym bytes = "json option"

fun deserializeCache :: "bytes \<Rightarrow> error + Cache" where
  "deserializeCache None = Inl SyntaxError"
| "deserializeCache (Some j) = (case castCache j of None \<Rightarrow> Inl IllTyped | Some cache \<Rightarrow> Inr cache)"

fun deserializeLog :: "bytes \<Rightarrow> error + VisitLog" where
  "deserializeLog None = Inl SyntaxError"
| "deserializeLog (Some j) = (case castLog j of None \<Rightarrow> Inl IllTyped | Some visitLog \<Rightarrow> Inr visitLog)"

fun deserializeTrackable :: "bytes \<Rightarrow> error + Trackable" where
  "deserializeTrackable None = Inl SyntaxError"
| "deserializeTrackable (Some j) =
     (case castTrackable j of None \<Rightarrow> Inl IllTyped | Some trackable \<Rightarrow> Inr trackable)"

section \<open>World state and caller\<close>

text \<open>
  The stub of the transaction context: the world state as a map from keys to the
  documents stored under them. A transaction is a function from the world state it
  starts in to its outcome (\<open>Inl\<close> the error thrown, \<open>Inr\<close> the value returned) and the
  world state after the writes it has issued up to that point.
\<close>

type_synonym world = "string \<Rightarrow> json option"

definition getState :: "world \<Rightarrow> string \<Rightarrow> bytes" where
  "getState st key = st key"

definition putState :: "world \<Rightarrow> string \<Rightarrow> json \<Rightarrow> world" where
  "putState st key val = st(key \<mapsto> val)"

definition deleteState :: "world \<Rightarrow> string \<Rightarrow> world" where
  "deleteState st key = st(key := None)"

text \<open>
  The rest of the context: the string \<^verbatim>\<open>ctx.clientIdentity.getID()\<close> returns, and the
  reading of the clock that \<^verbatim>\<open>new Date().toISOString()\<close> gives during the call.
\<close>

record Context =
  clientIdentity :: string
  clock :: string

text \<open>
  \<^verbatim>\<open>JSON.stringify\<close> of a string: the string between double quotes, with the quote,
  the backslash and the control characters escaped.
\<close>

definition hexDigit :: "nat \<Rightarrow> char" where
  "hexDigit n = (if n < 16 then ''0123456789abcdef'' ! n else CHR ''0'')"

definition quoteChar :: "char \<Rightarrow> string" where
  "quoteChar c =
     (if c = CHR 0x22 then [CHR 0x5C, CHR 0x22]
      else if c = CHR 0x5C then [CHR 0x5C, CHR 0x5C]
      else if c = CHR 0x08 then [CHR 0x5C, CHR ''b'']
      else if c = CHR 0x0C then [CHR 0x5C, CHR ''f'']
      else if c = CHR 0x0A then [CHR 0x5C, CHR ''n'']
      else if c = CHR 0x0D then [CHR 0x5C, CHR ''r'']
      else if c = CHR 0x09 then [CHR 0x5C, CHR ''t'']
      else if (of_char c :: nat) < 32
        then [CHR 0x5C, CHR ''u'', CHR ''0'', CHR ''0'',
              hexDigit (of_char c div 16), hexDigit (of_char c mod 16)]
      else [c])"

definition JSON_stringify :: "string \<Rightarrow> string" where
  "JSON_stringify s = CHR 0x22 # concat (map quoteChar s) @ [CHR 0x22]"

text \<open>\<^verbatim>\<open>String.prototype.slice\<close>: a negative index counts from the end.\<close>

definition slice :: "string \<Rightarrow> int \<Rightarrow> int \<Rightarrow> string" where
  "slice s start stop =
     (let len = int (length s);
          k = (if start < 0 then max (len + start) 0 else min start len);
          final = (if stop < 0 then max (len + stop) 0 else min stop len)
      in take (nat (final - k)) (drop (nat k) s))"

text \<open>
  \<^verbatim>\<open>getUserID\<close>. Its test is \<^verbatim>\<open>userid != "" || userid != null\<close>; the second disjunct
  holds of every string.
\<close>

definition getUserID :: "Context \<Rightarrow> error + string" where
  "getUserID ctx =
     (let user = clientIdentity ctx;
          userid = JSON_stringify user
      in if userid \<noteq> [] \<or> True then Inr (slice userid 1 (- 1)) else Inl UserNotFound)"

definition assertMaintainer :: "Context \<Rightarrow> string \<Rightarrow> error + unit" where
  "assertMaintainer ctx ident =
     (case getUserID ctx of
        Inl e \<Rightarrow> Inl e
      | Inr user \<Rightarrow> if \<not> (user = ident) then Inl NotMaintainer else Inr ())"

definition isMaintainer :: "Context \<Rightarrow> string \<Rightarrow> error + bool" where
  "isMaintainer ctx ident =
     (case getUserID ctx of Inl e \<Rightarrow> Inl e | Inr user \<Rightarrow> Inr (user = ident))"

text \<open>
  \<^verbatim>\<open>hideHiddenValues\<close> starts with \<^verbatim>\<open>let newCache: Cache = cache\<close>, which copies the
  reference and not the object, and then assigns to \<^verbatim>\<open>newCache.Pass\<close>. So the objects
  live on a heap, the argument and the result are references, and the assignment is a
  heap update.
\<close>

type_synonym ref = nat
type_synonym heap = "ref \<Rightarrow> Cache"

definition hideHiddenValues :: "Context \<Rightarrow> ref \<Rightarrow> heap \<Rightarrow> (error + ref) \<times> heap" where
  "hideHiddenValues ctx cache h =
     (let newCache = cache in
      case isMaintainer ctx (Maintainer (h cache)) of
        Inl e \<Rightarrow> (Inl e, h)
      | Inr m \<Rightarrow>
          if \<not> m then (Inr newCache, h(newCache := (h newCache)\<lparr>Pass := ''''\<rparr>))
          else (Inr newCache, h))"

text \<open>An object that has just been built, alone on its heap.\<close>

definition newObject :: "Cache \<Rightarrow> ref \<times> heap" where
  "newObject cache = (0, \<lambda>r. cache)"

section \<open>Caches\<close>

definition makeCacheID :: "string \<Rightarrow> string" where
  "makeCacheID ident = ''CACHE-'' @ ident"

definition CacheExists :: "world \<Rightarrow> string \<Rightarrow> bool" where
  "CacheExists st CacheID = (let data = getState st (makeCacheID CacheID) in data \<noteq> None)"

definition assertCacheNotExists :: "world \<Rightarrow> string \<Rightarrow> error + unit" where
  "assertCacheNotExists st CacheID =
     (if CacheExists st CacheID then Inl (CacheAlreadyExists CacheID) else Inr ())"

definition assertCacheExists :: "world \<Rightarrow> string \<Rightarrow> error + unit" where
  "assertCacheExists st CacheID =
     (if \<not> CacheExists st CacheID then Inl (CacheNotExist CacheID) else Inr ())"

definition UpdateCache ::
  "Context \<Rightarrow> string \<Rightarrow> string \<Rightarrow> string \<Rightarrow> number \<Rightarrow> number \<Rightarrow> string \<Rightarrow> string \<Rightarrow> world
     \<Rightarrow> (error + Cache) \<times> world" where
  "UpdateCache ctx CacheID name description gpsx gpsy pass report st =
     (case assertCacheExists st CacheID of
        Inl e \<Rightarrow> (Inl e, st)
      | Inr _ \<Rightarrow>
     (case deserializeCache (getState st (makeCacheID CacheID)) of
        Inl e \<Rightarrow> (Inl e, st)
      | Inr stored \<Rightarrow>
     (let maintainer = Maintainer stored in
      case assertMaintainer ctx maintainer of
        Inl e \<Rightarrow> (Inl e, st)
      | Inr _ \<Rightarrow>
     (let cache = \<lparr>Cache.ID = CacheID, Name = name, Description = description,
                   GPSX = gpsx, GPSY = gpsy, Report = report, Pass = pass,
                   Maintainer = maintainer\<rparr>
      in (Inr cache, putState st (makeCacheID CacheID) (serializeCache cache))))))"

definition DeleteCache :: "Context \<Rightarrow> string \<Rightarrow> world \<Rightarrow> (error + string) \<times> world" where
  "DeleteCache ctx CacheID st =
     (case assertCacheExists st CacheID of
        Inl e \<Rightarrow> (Inl e, st)
      | Inr _ \<Rightarrow>
     (case deserializeCache (getState st (makeCacheID CacheID)) of
        Inl e \<Rightarrow> (Inl e, st)
      | Inr stored \<Rightarrow>
     (case assertMaintainer ctx (Maintainer stored) of
        Inl e \<Rightarrow> (Inl e, st)
      | Inr _ \<Rightarrow> (Inr CacheID, deleteState st (makeCacheID CacheID)))))"

definition GetCachePass :: "Context \<Rightarrow> string \<Rightarrow> world \<Rightarrow> (error + string) \<times> world" where
  "GetCachePass ctx CacheID st =
     (case assertCacheExists st CacheID of
        Inl e \<Rightarrow> (Inl e, st)
      | Inr _ \<Rightarrow>
     (case deserializeCache (getState st (makeCacheID CacheID)) of
        Inl e \<Rightarrow> (Inl e, st)
      | Inr stored \<Rightarrow>
     (case assertMaintainer ctx (Maintainer stored) of
        Inl e \<Rightarrow> (Inl e, st)
      | Inr _ \<Rightarrow>
     (case deserializeCache (getState st (makeCacheID CacheID)) of
        Inl e \<Rightarrow> (Inl e, st)
      | Inr again \<Rightarrow> (Inr (Pass again), st)))))"

definition CreateCache ::
  "Context \<Rightarrow> string \<Rightarrow> string \<Rightarrow> string \<Rightarrow> number \<Rightarrow> number \<Rightarrow> string \<Rightarrow> world
     \<Rightarrow> (error + Cache) \<times> world" where
  "CreateCache ctx CacheID name description gpsx gpsy pass st =
     (case assertCacheNotExists st CacheID of
        Inl e \<Rightarrow> (Inl e, st)
      | Inr _ \<Rightarrow>
     (case getUserID ctx of
        Inl e \<Rightarrow> (Inl e, st)
      | Inr maintainer \<Rightarrow>
     (let cache = \<lparr>Cache.ID = CacheID, Name = name, Description = description,
                   GPSX = gpsx, GPSY = gpsy, Report = '''', Pass = pass,
                   Maintainer = maintainer\<rparr>
      in (Inr cache, putState st (makeCacheID CacheID) (serializeCache cache)))))"

definition GetCache :: "Context \<Rightarrow> string \<Rightarrow> world \<Rightarrow> (error + Cache) \<times> world" where
  "GetCache ctx CacheID st =
     (case assertCacheExists st CacheID of
        Inl e \<Rightarrow> (Inl e, st)
      | Inr _ \<Rightarrow>
     (case deserializeCache (getState st (makeCacheID CacheID)) of
        Inl e \<Rightarrow> (Inl e, st)
      | Inr parsed \<Rightarrow>
     (case newObject parsed of (cache, h) \<Rightarrow>
     (case hideHiddenValues ctx cache h of
        (Inl e, h') \<Rightarrow> (Inl e, st)
      | (Inr shown, h') \<Rightarrow> (Inr (h' shown), st)))))"

definition ReportCache :: "Context \<Rightarrow> string \<Rightarrow> string \<Rightarrow> world \<Rightarrow> (error + Cache) \<times> world" where
  "ReportCache ctx CacheID report st =
     (case assertCacheExists st CacheID of
        Inl e \<Rightarrow> (Inl e, st)
      | Inr _ \<Rightarrow>
     (case deserializeCache (getState st (makeCacheID CacheID)) of
        Inl e \<Rightarrow> (Inl e, st)
      | Inr oldCache \<Rightarrow>
     (case newObject \<lparr>Cache.ID = CacheID, Name = Cache.Name oldCache,
                      Description = Description oldCache, GPSX = GPSX oldCache,
                      GPSY = GPSY oldCache, Report = report, Pass = Pass oldCache,
                      Maintainer = Maintainer oldCache\<rparr> of (newcache, h) \<Rightarrow>
     (let st' = putState st (makeCacheID CacheID) (serializeCache (h newcache)) in
      case hideHiddenValues ctx newcache h of
        (Inl e, h') \<Rightarrow> (Inl e, st')
      | (Inr shown, h') \<Rightarrow> (Inr (h' shown), st')))))"

section \<open>Visit logs\<close>

definition makeLogID :: "string \<Rightarrow> string" where
  "makeLogID ident = ''LOG-'' @ ident"

definition LogExists :: "world \<Rightarrow> string \<Rightarrow> bool" where
  "LogExists st LogID = (let data = getState st (makeLogID LogID) in data \<noteq> None)"

definition assertLogNotExists :: "world \<Rightarrow> string \<Rightarrow> error + unit" where
  "assertLogNotExists st ident =
     (if LogExists st ident then Inl (LogAlreadyExists ident) else Inr ())"

definition assertLogExists :: "world \<Rightarrow> string \<Rightarrow> error + unit" where
  "assertLogExists st ident =
     (if \<not> LogExists st ident then Inl (LogNotExist ident) else Inr ())"

definition CreateLog ::
  "Context \<Rightarrow> string \<Rightarrow> string \<Rightarrow> string \<Rightarrow> world \<Rightarrow> (error + VisitLog) \<times> world" where
  "CreateLog ctx LogID CacheID pass st =
     (case assertCacheExists st CacheID of
        Inl e \<Rightarrow> (Inl e, st)
      | Inr _ \<Rightarrow>
     (case assertLogNotExists st LogID of
        Inl e \<Rightarrow> (Inl e, st)
      | Inr _ \<Rightarrow>
     (case deserializeCache (getState st (makeCacheID CacheID)) of
        Inl e \<Rightarrow> (Inl e, st)
      | Inr cache \<Rightarrow>
     (if pass \<noteq> Pass cache then (Inl WrongPass, st)
      else
     (case getUserID ctx of
        Inl e \<Rightarrow> (Inl e, st)
      | Inr user \<Rightarrow>
     (let visitLog = \<lparr>VisitLog.ID = LogID, Trackables = Some [], User = user,
                      Cache = CacheID, Time = clock ctx\<rparr>
      in (Inr visitLog, putState st (makeLogID LogID) (serializeLog visitLog))))))))"

text \<open>\<^verbatim>\<open>GetLog\<close> checks the key \<^verbatim>\<open>makeLogID(ID)\<close> and then reads the key \<^verbatim>\<open>ID\<close>.\<close>

definition GetLog :: "Context \<Rightarrow> string \<Rightarrow> world \<Rightarrow> (error + VisitLog) \<times> world" where
  "GetLog ctx ident st =
     (case assertLogExists st ident of
        Inl e \<Rightarrow> (Inl e, st)
      | Inr _ \<Rightarrow>
     (case deserializeLog (getState st ident) of
        Inl e \<Rightarrow> (Inl e, st)
      | Inr visitLog \<Rightarrow> (Inr visitLog, st)))"

section \<open>Trackables\<close>

definition makeTrackableID :: "string \<Rightarrow> string" where
  "makeTrackableID ident = ''TRACKABLE-'' @ ident"

definition TrackableExists :: "world \<Rightarrow> string \<Rightarrow> bool" where
  "TrackableExists st TrackableID =
     (let data = getState st (makeTrackableID TrackableID) in data \<noteq> None)"

definition assertTrackableNotExists :: "world \<Rightarrow> string \<Rightarrow> error + unit" where
  "assertTrackableNotExists st ident =
     (if TrackableExists st ident then Inl (TrackableAlreadyExists ident) else Inr ())"

definition assertTrackableExists :: "world \<Rightarrow> string \<Rightarrow> error + unit" where
  "assertTrackableExists st ident =
     (if \<not> TrackableExists st ident then Inl (TrackableNotExist ident) else Inr ())"

text \<open>
  \<^verbatim>\<open>newVisitLog.Trackables || []\<close>: an array, also the empty one, is truthy and stands
  for itself; \<^verbatim>\<open>undefined\<close> gives the empty array.
\<close>

fun orEmpty :: "string list option \<Rightarrow> string list" where
  "orEmpty None = []"
| "orEmpty (Some ts) = ts"

definition CreateTrackable ::
  "Context \<Rightarrow> string \<Rightarrow> string \<Rightarrow> string \<Rightarrow> world \<Rightarrow> (error + Trackable) \<times> world" where
  "CreateTrackable ctx TrackableID LogID name st =
     (case assertLogExists st LogID of
        Inl e \<Rightarrow> (Inl e, st)
      | Inr _ \<Rightarrow>
     (case assertTrackableNotExists st TrackableID of
        Inl e \<Rightarrow> (Inl e, st)
      | Inr _ \<Rightarrow>
     (case deserializeLog (getState st (makeLogID LogID)) of
        Inl e \<Rightarrow> (Inl e, st)
      | Inr newVisitLog \<Rightarrow>
     (case getUserID ctx of
        Inl e \<Rightarrow> (Inl e, st)
      | Inr user \<Rightarrow>
     (if user \<noteq> User newVisitLog then (Inl (LogNotMadeBy LogID user), st)
      else
     (let trackable = \<lparr>Trackable.ID = TrackableID, Name = name, Inserted = True,
                       VisitLog = LogID\<rparr>;
          newVisitLogEdited =
            \<lparr>VisitLog.ID = VisitLog.ID newVisitLog,
             Trackables = Some (orEmpty (Trackables newVisitLog) @ [TrackableID @ ''-IN'']),
             User = User newVisitLog, Cache = Cache newVisitLog, Time = Time newVisitLog\<rparr>;
          st1 = putState st (makeTrackableID TrackableID) (serializeTrackable trackable);
          st2 = putState st1 (makeLogID (VisitLog.ID newVisitLog)) (serializeLog newVisitLogEdited)
      in (Inr trackable, st2)))))))"

definition InsertTrackable ::
  "Context \<Rightarrow> string \<Rightarrow> string \<Rightarrow> world \<Rightarrow> (error + Trackable) \<times> world" where
  "InsertTrackable ctx TrackableID LogID st =
     (case assertLogExists st LogID of
        Inl e \<Rightarrow> (Inl e, st)
      | Inr _ \<Rightarrow>
     (case assertTrackableExists st TrackableID of
        Inl e \<Rightarrow> (Inl e, st)
      | Inr _ \<Rightarrow>
     (case deserializeTrackable (getState st (makeTrackableID TrackableID)) of
        Inl e \<Rightarrow> (Inl e, st)
      | Inr trackable \<Rightarrow>
     (if Inserted trackable = True then (Inl (AlreadyInserted TrackableID), st)
      else
     (case deserializeLog (getState st (makeLogID (VisitLog trackable))) of
        Inl e \<Rightarrow> (Inl e, st)
      | Inr oldVisitLog \<Rightarrow>
     (case deserializeLog (getState st (makeLogID LogID)) of
        Inl e \<Rightarrow> (Inl e, st)
      | Inr newVisitLog \<Rightarrow>
     (if User oldVisitLog \<noteq> User newVisitLog
      then (Inl (NotOwnedBy TrackableID (User newVisitLog)), st)
      else
     (case getUserID ctx of
        Inl e \<Rightarrow> (Inl e, st)
      | Inr user \<Rightarrow>
     (if user \<noteq> User newVisitLog then (Inl (LogNotMadeBy LogID user), st)
      else
     (if Time newVisitLog \<le> Time oldVisitLog
      then (Inl (LogBefore LogID (VisitLog trackable)), st)
      else
     (let newTrackable = \<lparr>Trackable.ID = TrackableID, Name = Trackable.Name trackable,
                          Inserted = True, VisitLog = LogID\<rparr>;
          newVisitLogEdited =
            \<lparr>VisitLog.ID = VisitLog.ID newVisitLog,
             Trackables = Some (orEmpty (Trackables newVisitLog) @ [TrackableID @ ''-IN'']),
             User = User newVisitLog, Cache = Cache newVisitLog, Time = Time newVisitLog\<rparr>;
          st1 = putState st (makeTrackableID TrackableID) (serializeTrackable newTrackable);
          st2 = putState st1 (makeLogID (VisitLog.ID newVisitLog)) (serializeLog newVisitLogEdited)
      in (Inr newTrackable, st2))))))))))))"

definition RemoveTrackable ::
  "Context \<Rightarrow> string \<Rightarrow> string \<Rightarrow> world \<Rightarrow> (error + Trackable) \<times> world" where
  "RemoveTrackable ctx TrackableID LogID st =
     (case assertLogExists st LogID of
        Inl e \<Rightarrow> (Inl e, st)
      | Inr _ \<Rightarrow>
     (case assertTrackableExists st TrackableID of
        Inl e \<Rightarrow> (Inl e, st)
      | Inr _ \<Rightarrow>
     (case deserializeTrackable (getState st (makeTrackableID TrackableID)) of
        Inl e \<Rightarrow> (Inl e, st)
      | Inr trackable \<Rightarrow>
     (if Inserted trackable \<noteq> True then (Inl (NotInserted TrackableID), st)
      else
     (case deserializeLog (getState st (makeLogID (VisitLog trackable))) of
        Inl e \<Rightarrow> (Inl e, st)
      | Inr oldVisitLog \<Rightarrow>
     (case deserializeLog (getState st (makeLogID LogID)) of
        Inl e \<Rightarrow> (Inl e, st)
      | Inr newVisitLog \<Rightarrow>
     (case getUserID ctx of
        Inl e \<Rightarrow> (Inl e, st)
      | Inr user \<Rightarrow>
     (if user \<noteq> User newVisitLog then (Inl (LogNotMadeBy LogID user), st)
      else
     (if Time newVisitLog \<le> Time oldVisitLog
      then (Inl (LogBefore LogID (VisitLog trackable)), st)
      else
     (if Cache newVisitLog \<noteq> Cache oldVisitLog
      then (Inl (DifferentCaches TrackableID LogID), st)
      else
     (let newTrackable = \<lparr>Trackable.ID = TrackableID, Name = Trackable.Name trackable,
                          Inserted = False, VisitLog = LogID\<rparr>;
          newVisitLogEdited =
            \<lparr>VisitLog.ID = VisitLog.ID newVisitLog,
             Trackables = Some (orEmpty (Trackables newVisitLog) @ [TrackableID @ ''-OUT'']),
             User = User newVisitLog, Cache = Cache newVisitLog, Time = Time newVisitLog\<rparr>;
          st1 = putState st (makeTrackableID TrackableID) (serializeTrackable newTrackable);
          st2 = putState st1 (makeLogID (VisitLog.ID newVisitLog)) (serializeLog newVisitLogEdited)
      in (Inr newTrackable, st2))))))))))))"

definition GetTrackable :: "Context \<Rightarrow> string \<Rightarrow> world \<Rightarrow> (error + Trackable) \<times> world" where
  "GetTrackable ctx TrackableID st =
     (case assertTrackableExists st TrackableID of
        Inl e \<Rightarrow> (Inl e, st)
      | Inr _ \<Rightarrow>
     (case deserializeTrackable (getState st (makeTrackableID TrackableID)) of
        Inl e \<Rightarrow> (Inl e, st)
      | Inr trackable \<Rightarrow> (Inr trackable, st)))"

section \<open>Auxiliary notions and a sample ledger\<close>

text \<open>A number comes back from its JSON form as itself if finite and as \<^verbatim>\<open>null\<close> if not.\<close>

fun reread :: "number \<Rightarrow> number" where
  "reread (Finite r) = Finite r"
| "reread n = NullNumber"

text \<open>Two callers and the empty world state.\<close>

definition alice :: Context where
  "alice = \<lparr>clientIdentity = ''alice'', clock = ''2021-03-01T00:00:00.000Z''\<rparr>"

definition bob :: Context where
  "bob = \<lparr>clientIdentity = ''bob'', clock = ''2021-03-02T00:00:00.000Z''\<rparr>"

definition genesis :: world where
  "genesis = Map.empty"

text \<open>A cache site of alice's, and the world state that holds it.\<close>

definition site :: Cache where
  "site = \<lparr>Cache.ID = ''c1'', Name = ''Cache'', Description = ''Desc'',
            GPSX = Finite 10, GPSY = Finite 20, Report = '''', Pass = ''secret'',
            Maintainer = ''alice''\<rparr>"

definition siteWorld :: world where
  "siteWorld = putState genesis (makeCacheID ''c1'') (serializeCache site)"

text \<open>
  Visit logs: the one the trackable sits in, one of an earlier day, one of a later day
  at another site, one of a later day by bob, one of a later day at the same site, and
  one whose document has no \<^verbatim>\<open>Trackables\<close> member.
\<close>

definition firstLog :: VisitLog where
  "firstLog = \<lparr>VisitLog.ID = ''l1'', Trackables = Some [''t1-IN''], User = ''alice'',
                Cache = ''c1'', Time = ''2021-01-01T00:00:00Z''\<rparr>"

definition earlierLog :: VisitLog where
  "earlierLog = \<lparr>VisitLog.ID = ''l0'', Trackables = Some [], User = ''alice'',
                  Cache = ''c1'', Time = ''2020-12-31T00:00:00Z''\<rparr>"

definition laterLog :: VisitLog where
  "laterLog = \<lparr>VisitLog.ID = ''l2'', Trackables = Some [], User = ''alice'',
                Cache = ''c2'', Time = ''2021-02-01T00:00:00Z''\<rparr>"

definition bobsLog :: VisitLog where
  "bobsLog = \<lparr>VisitLog.ID = ''l3'', Trackables = Some [], User = ''bob'',
               Cache = ''c1'', Time = ''2021-02-01T00:00:00Z''\<rparr>"

definition sameSiteLog :: VisitLog where
  "sameSiteLog = \<lparr>VisitLog.ID = ''l4'', Trackables = Some [], User = ''alice'',
                   Cache = ''c1'', Time = ''2021-02-02T00:00:00Z''\<rparr>"

definition bareLog :: VisitLog where
  "bareLog = \<lparr>VisitLog.ID = ''l5'', Trackables = None, User = ''alice'',
               Cache = ''c1'', Time = ''2021-02-03T00:00:00Z''\<rparr>"

definition storeLog :: "world \<Rightarrow> VisitLog \<Rightarrow> world" where
  "storeLog st visitLog = putState st (makeLogID (VisitLog.ID visitLog)) (serializeLog visitLog)"

definition logWorld :: world where
  "logWorld =
     storeLog (storeLog (storeLog (storeLog (storeLog (storeLog siteWorld
       firstLog) earlierLog) laterLog) bobsLog) sameSiteLog) bareLog"

text \<open>The trackable, inserted in the first log, and the same trackable taken out.\<close>

definition coin :: Trackable where
  "coin = \<lparr>Trackable.ID = ''t1'', Name = ''Coin'', Inserted = True, VisitLog = ''l1''\<rparr>"

definition coinOut :: Trackable where
  "coinOut = \<lparr>Trackable.ID = ''t1'', Name = ''Coin'', Inserted = False, VisitLog = ''l1''\<rparr>"

definition ledger :: "Trackable \<Rightarrow> world" where
  "ledger trackable =
     putState logWorld (makeTrackableID (Trackable.ID trackable)) (serializeTrackable trackable)"

text \<open>The world state after alice has logged a visit to her site.\<close>

definition visitedWorld :: world where
  "visitedWorld = snd (CreateLog alice ''l1'' ''c1'' ''secret'' siteWorld)"

section \<open>Facts about serialization\<close>

text \<open>The documents the three serializers write, member by member.\<close>

lemma serializeCache_eq:
  "serializeCache cache = JObj
     [(''Description'', JStr (Description cache)),
      (''GPSX'', jsonNumber (GPSX cache)), (''GPSY'', jsonNumber (GPSY cache)),
      (''ID'', JStr (Cache.ID cache)), (''Maintainer'', JStr (Maintainer cache)),
      (''Name'', JStr (Cache.Name cache)), (''Pass'', JStr (Pass cache)),
      (''Report'', JStr (Report cache))]"
  by (simp add: serializeCache_def stringify_def sortKeys_def objectOfCache_def)

lemma serializeTrackable_eq:
  "serializeTrackable t = JObj
     [(''ID'', JStr (Trackable.ID t)), (''Inserted'', JBool (Inserted t)),
      (''Name'', JStr (Trackable.Name t)), (''VisitLog'', JStr (VisitLog t))]"
  by (simp add: serializeTrackable_def stringify_def sortKeys_def objectOfTrackable_def)

lemma serializeLog_eq:
  "serializeLog l = JObj
     ([(''Cache'', JStr (Cache l)), (''ID'', JStr (VisitLog.ID l)), (''Time'', JStr (Time l))] @
      (case Trackables l of
         None \<Rightarrow> []
       | Some ts \<Rightarrow> [(''Trackables'', JArr (map JStr (sort ts)))]) @
      [(''User'', JStr (User l))])"
  by (simp add: serializeLog_def stringify_def sortKeys_def objectOfLog_def
      split: option.splits)

lemma asStrings_map: "asStrings (map JStr xs) = Some xs"
  by (induction xs) simp_all

lemma asNumber_jsonNumber: "asNumber (Some (jsonNumber n)) = Some (reread n)"
  by (cases n) simp_all

lemma jsonNumber_reread: "jsonNumber (reread n) = jsonNumber n"
  by (cases n) simp_all

lemma castCache_serializeCache:
  "castCache (serializeCache c) =
     Some (c\<lparr>GPSX := reread (GPSX c), GPSY := reread (GPSY c)\<rparr>)"
  by (simp add: serializeCache_eq castCache_def asNumber_jsonNumber)

lemma castTrackable_serializeTrackable:
  "castTrackable (serializeTrackable t) = Some t"
  by (simp add: serializeTrackable_eq castTrackable_def)

lemma castLog_serializeLog:
  "castLog (serializeLog l) = Some (l\<lparr>Trackables := map_option sort (Trackables l)\<rparr>)"
  by (cases "Trackables l") (simp_all add: serializeLog_eq castLog_def asStrings_map)

lemmas cast_serialize =
  castCache_serializeCache castTrackable_serializeTrackable castLog_serializeLog

lemma deserializeCache_serializeCache:
  "deserializeCache (Some (serializeCache c)) =
     Inr (c\<lparr>GPSX := reread (GPSX c), GPSY := reread (GPSY c)\<rparr>)"
  by (simp add: castCache_serializeCache)

lemma deserializeTrackable_serializeTrackable:
  "deserializeTrackable (Some (serializeTrackable t)) = Inr t"
  by (simp add: castTrackable_serializeTrackable)

lemma deserializeLog_serializeLog:
  "deserializeLog (Some (serializeLog l)) =
     Inr (l\<lparr>Trackables := map_option sort (Trackables l)\<rparr>)"
  by (simp add: castLog_serializeLog)

lemma sort_sort: "sort (sort (ts :: string list)) = sort ts"
  by (simp add: sorted_sort_id)

section \<open>Facts about the caller and the keys\<close>

lemma slice_quoted: "slice (q # s @ [q']) 1 (- 1) = s"
  by (simp add: slice_def Let_def)

lemma getUserID_eq: "getUserID ctx = Inr (concat (map quoteChar (clientIdentity ctx)))"
  by (simp add: getUserID_def Let_def JSON_stringify_def slice_quoted)

lemma getUserID_alice: "getUserID alice = Inr ''alice''"
  by (simp add: getUserID_eq alice_def quoteChar_def)

lemma getUserID_bob: "getUserID bob = Inr ''bob''"
  by (simp add: getUserID_eq bob_def quoteChar_def)

lemma deserialize_Inr_stored:
  "deserializeCache b = Inr c \<Longrightarrow> b \<noteq> None"
  "deserializeLog b = Inr l \<Longrightarrow> b \<noteq> None"
  "deserializeTrackable b = Inr t \<Longrightarrow> b \<noteq> None"
  by (cases b; simp)+

section \<open>Facts about the sample ledger\<close>

lemma ledger_logs:
  "getState (ledger t) (makeLogID ''l0'') = Some (serializeLog earlierLog)"
  "getState (ledger t) (makeLogID ''l1'') = Some (serializeLog firstLog)"
  "getState (ledger t) (makeLogID ''l2'') = Some (serializeLog laterLog)"
  "getState (ledger t) (makeLogID ''l3'') = Some (serializeLog bobsLog)"
  "getState (ledger t) (makeLogID ''l4'') = Some (serializeLog sameSiteLog)"
  "getState (ledger t) (makeLogID ''l5'') = Some (serializeLog bareLog)"
  by (simp_all add: ledger_def logWorld_def storeLog_def putState_def getState_def
      makeLogID_def makeTrackableID_def firstLog_def earlierLog_def laterLog_def bobsLog_def sameSiteLog_def
      bareLog_def)

lemma ledger_trackable:
  "getState (ledger coin) (makeTrackableID ''t1'') = Some (serializeTrackable coin)"
  "getState (ledger coinOut) (makeTrackableID ''t1'') = Some (serializeTrackable coinOut)"
  by (simp_all add: ledger_def putState_def getState_def coin_def coinOut_def)

lemma ledger_parsed:
  "deserializeLog (getState (ledger t) (makeLogID ''l0'')) = Inr earlierLog"
  "deserializeLog (getState (ledger t) (makeLogID ''l1'')) = Inr firstLog"
  "deserializeLog (getState (ledger t) (makeLogID ''l2'')) = Inr laterLog"
  "deserializeLog (getState (ledger t) (makeLogID ''l3'')) = Inr bobsLog"
  "deserializeLog (getState (ledger t) (makeLogID ''l4'')) = Inr sameSiteLog"
  "deserializeLog (getState (ledger t) (makeLogID ''l5'')) = Inr bareLog"
  "deserializeTrackable (getState (ledger coin) (makeTrackableID ''t1'')) = Inr coin"
  "deserializeTrackable (getState (ledger coinOut) (makeTrackableID ''t1'')) = Inr coinOut"
  by (simp_all add: ledger_logs ledger_trackable cast_serialize)
    (simp_all add: firstLog_def earlierLog_def laterLog_def bobsLog_def sameSiteLog_def
      bareLog_def)

lemma siteWorld_parsed: "deserializeCache (getState siteWorld (makeCacheID ''c1'')) = Inr site"
  by (simp add: siteWorld_def getState_def putState_def castCache_serializeCache)
    (simp add: site_def)

lemma siteWorld_exists: "CacheExists siteWorld ''c1''"
  by (simp add: CacheExists_def siteWorld_def getState_def putState_def)

lemma visitedWorld_eq:
  "visitedWorld =
     putState siteWorld (makeLogID ''l1'')
       (serializeLog \<lparr>VisitLog.ID = ''l1'', Trackables = Some [], User = ''alice'',
                       Cache = ''c1'', Time = clock alice\<rparr>)"
proof -
  have "\<not> LogExists siteWorld ''l1''"
    by (simp add: LogExists_def siteWorld_def getState_def putState_def genesis_def
        makeLogID_def makeCacheID_def)
  moreover have "Pass site = ''secret''"
    by (simp add: site_def)
  ultimately show ?thesis
    using siteWorld_parsed siteWorld_exists
    by (simp add: visitedWorld_def CreateLog_def assertCacheExists_def assertLogNotExists_def
        getUserID_alice Let_def)
qed

section \<open>Facts about the operations\<close>

text \<open>What \<open>hideHiddenValues\<close> does to the heap: the object it is given is the one it returns.\<close>

lemma hideHiddenValues_eq:
  "hideHiddenValues ctx cache h =
     (Inr cache,
      h(cache := (if getUserID ctx = Inr (Maintainer (h cache)) then h cache
                  else (h cache)\<lparr>Pass := ''''\<rparr>)))"
  by (auto simp: hideHiddenValues_def isMaintainer_def getUserID_eq Let_def)

lemma GetCache_world: "snd (GetCache ctx CacheID st) = st"
  by (simp add: GetCache_def newObject_def hideHiddenValues_eq split: sum.splits)

lemma GetCache_stored:
  assumes "deserializeCache (getState st (makeCacheID CacheID)) = Inr parsed"
  shows "GetCache ctx CacheID st =
           (Inr (if getUserID ctx = Inr (Maintainer parsed) then parsed
                 else parsed\<lparr>Pass := ''''\<rparr>), st)"
proof -
  have "CacheExists st CacheID"
    using assms by (auto simp: CacheExists_def dest: deserialize_Inr_stored)
  then show ?thesis
    using assms
    by (simp add: GetCache_def assertCacheExists_def newObject_def hideHiddenValues_eq)
qed

lemma read_back_log:
  "deserializeLog (getState (putState w k (serializeLog l)) k)
     = Inr (l\<lparr>Trackables := map_option sort (Trackables l)\<rparr>)"
  by (simp add: getState_def putState_def castLog_serializeLog)

lemma parsed_exists:
  "deserializeLog (getState st (makeLogID l)) = Inr visitLog \<Longrightarrow> LogExists st l"
  "deserializeTrackable (getState st (makeTrackableID t)) = Inr trackable \<Longrightarrow> TrackableExists st t"
  "deserializeCache (getState st (makeCacheID c)) = Inr cache \<Longrightarrow> CacheExists st c"
  by (auto simp: LogExists_def TrackableExists_def CacheExists_def dest: deserialize_Inr_stored)

section \<open>The claims\<close>

subsection \<open>C1: reading a visit log\<close>

text \<open>
  Claim C1. For every stored visit log, \<open>GetLog\<close> with that log's id succeeds and returns
  the record stored under the key \<^verbatim>\<open>LOG-<id>\<close>, the key that the existence check and
  \<open>CreateLog\<close> use.

  The source checks \<^verbatim>\<open>makeLogID(ID)\<close> and then reads \<^verbatim>\<open>ID\<close>. In the world state that
  \<open>CreateCache\<close> and \<open>CreateLog\<close> leave behind, the log \<^verbatim>\<open>l1\<close> is stored and parses, and
  \<open>GetLog\<close> of \<^verbatim>\<open>l1\<close> passes the check, finds nothing under the key \<^verbatim>\<open>l1\<close> and fails in
  \<^verbatim>\<open>JSON.parse\<close>.
\<close>

theorem GetLog_reads_unprefixed_key:
  "LogExists visitedWorld ''l1''
   \<and> deserializeLog (getState visitedWorld (makeLogID ''l1''))
       = Inr \<lparr>VisitLog.ID = ''l1'', Trackables = Some [], User = ''alice'',
               Cache = ''c1'', Time = clock alice\<rparr>
   \<and> GetLog alice ''l1'' visitedWorld = (Inl SyntaxError, visitedWorld)"
proof -
  have e: "LogExists visitedWorld ''l1''"
    by (simp add: visitedWorld_eq LogExists_def getState_def putState_def)
  have d: "deserializeLog (getState visitedWorld (makeLogID ''l1''))
       = Inr \<lparr>VisitLog.ID = ''l1'', Trackables = Some [], User = ''alice'',
               Cache = ''c1'', Time = clock alice\<rparr>"
    by (simp add: visitedWorld_eq getState_def putState_def castLog_serializeLog)
  have "getState visitedWorld ''l1'' = None"
    by (simp add: visitedWorld_eq siteWorld_def genesis_def getState_def putState_def
        makeLogID_def makeCacheID_def)
  with e have "GetLog alice ''l1'' visitedWorld = (Inl SyntaxError, visitedWorld)"
    by (simp add: GetLog_def assertLogExists_def)
  with e d show ?thesis by simp
qed

subsection \<open>C2: redaction\<close>

text \<open>
  Claim C2. \<open>hideHiddenValues\<close> is a pure copy operation: for every cache record and
  caller it returns a record equal to the input except that \<open>Pass\<close> is empty when the
  caller is not the \<open>Maintainer\<close>, and the record passed to it is left unchanged.

  The source does not do this. It begins with \<^verbatim>\<open>let newCache: Cache = cache\<close>, which
  names the same object a second time instead of building a new one, and then assigns
  to \<^verbatim>\<open>newCache.Pass\<close>. For the cache site of alice read on behalf of bob, the object
  handed to \<open>hideHiddenValues\<close> has the password before the call and the empty string
  after it.
\<close>

theorem redaction_overwrites_input:
  "Pass (snd (newObject site) (fst (newObject site))) = ''secret''
   \<and> Pass (snd (hideHiddenValues bob (fst (newObject site)) (snd (newObject site)))
         (fst (newObject site))) = ''''"
  by (simp add: hideHiddenValues_eq newObject_def getUserID_bob) (simp add: site_def)

subsection \<open>C3: the order of the existence checks\<close>

text \<open>
  Claim C3, as amended. \<open>InsertTrackable\<close> and \<open>RemoveTrackable\<close> check the new log first
  and the trackable second: when the new log is absent they fail with the log's
  not-found error whatever the trackable, when the log exists and the trackable is
  absent they fail with the trackable's not-found error, and in both cases the world
  state is as before.
\<close>

theorem existence_check_order:
  "(\<not> LogExists st LogID \<longrightarrow>
      InsertTrackable ctx TrackableID LogID st = (Inl (LogNotExist LogID), st)
      \<and> RemoveTrackable ctx TrackableID LogID st = (Inl (LogNotExist LogID), st))
   \<and> (LogExists st LogID \<and> \<not> TrackableExists st TrackableID \<longrightarrow>
      InsertTrackable ctx TrackableID LogID st = (Inl (TrackableNotExist TrackableID), st)
      \<and> RemoveTrackable ctx TrackableID LogID st = (Inl (TrackableNotExist TrackableID), st))"
  by (simp add: InsertTrackable_def RemoveTrackable_def assertLogExists_def
      assertTrackableExists_def)

theorem existence_check_order_witness:
  "\<not> LogExists genesis ''l2''
   \<and> InsertTrackable alice ''t1'' ''l2'' genesis = (Inl (LogNotExist ''l2''), genesis)
   \<and> RemoveTrackable alice ''t1'' ''l2'' genesis = (Inl (LogNotExist ''l2''), genesis)
   \<and> LogExists logWorld ''l2'' \<and> \<not> TrackableExists logWorld ''t1''
   \<and> InsertTrackable alice ''t1'' ''l2'' logWorld = (Inl (TrackableNotExist ''t1''), logWorld)
   \<and> RemoveTrackable alice ''t1'' ''l2'' logWorld = (Inl (TrackableNotExist ''t1''), logWorld)"
proof -
  have a: "\<not> LogExists genesis ''l2''"
    by (simp add: LogExists_def getState_def genesis_def)
  have b: "LogExists logWorld ''l2''"
    by (simp add: LogExists_def getState_def logWorld_def storeLog_def putState_def
        makeLogID_def laterLog_def bobsLog_def sameSiteLog_def bareLog_def)
  have c: "\<not> TrackableExists logWorld ''t1''"
    by (simp add: TrackableExists_def getState_def logWorld_def storeLog_def putState_def
        makeLogID_def makeTrackableID_def makeCacheID_def siteWorld_def genesis_def)
  from a b c existence_check_order [of genesis "''l2''" alice "''t1''"]
    existence_check_order [of logWorld "''l2''" alice "''t1''"]
  show ?thesis by simp
qed

text \<open>
  Claim C3, as stated, has the trackable checked first. In the empty world state the
  trackable \<^verbatim>\<open>t1\<close> is absent, and both operations fail for the log \<^verbatim>\<open>l2\<close>, not for the
  trackable.
\<close>

theorem trackable_absent_log_reported:
  "\<not> TrackableExists genesis ''t1''
   \<and> InsertTrackable alice ''t1'' ''l2'' genesis = (Inl (LogNotExist ''l2''), genesis)
   \<and> RemoveTrackable alice ''t1'' ''l2'' genesis = (Inl (LogNotExist ''l2''), genesis)
   \<and> LogNotExist ''l2'' \<noteq> TrackableNotExist ''t1''"
  by (simp add: InsertTrackable_def RemoveTrackable_def assertLogExists_def
      LogExists_def TrackableExists_def getState_def genesis_def)

subsection \<open>C4: temporal order\<close>

text \<open>
  Claim C4. For every \<open>InsertTrackable\<close> and \<open>RemoveTrackable\<close> call that passes the
  existence, state and ownership checks, the operation fails with the error of a new log
  that precedes the old one if and only if the \<open>Time\<close> of the new log is less than or
  equal to the \<open>Time\<close> of the old log in the lexicographic order of strings; and on that
  failure the world state is as before.
\<close>

theorem temporal_order:
  assumes "deserializeTrackable (getState st (makeTrackableID TrackableID)) = Inr trackable"
    and "deserializeLog (getState st (makeLogID (VisitLog trackable))) = Inr oldVisitLog"
    and "deserializeLog (getState st (makeLogID LogID)) = Inr newVisitLog"
    and "getUserID ctx = Inr (User newVisitLog)"
  shows "(\<not> Inserted trackable \<and> User oldVisitLog = User newVisitLog \<longrightarrow>
            ((\<exists>a b. fst (InsertTrackable ctx TrackableID LogID st) = Inl (LogBefore a b))
               \<longleftrightarrow> Time newVisitLog \<le> Time oldVisitLog)
            \<and> (Time newVisitLog \<le> Time oldVisitLog \<longrightarrow>
                 InsertTrackable ctx TrackableID LogID st
                   = (Inl (LogBefore LogID (VisitLog trackable)), st)))
       \<and> (Inserted trackable \<longrightarrow>
            ((\<exists>a b. fst (RemoveTrackable ctx TrackableID LogID st) = Inl (LogBefore a b))
               \<longleftrightarrow> Time newVisitLog \<le> Time oldVisitLog)
            \<and> (Time newVisitLog \<le> Time oldVisitLog \<longrightarrow>
                 RemoveTrackable ctx TrackableID LogID st
                   = (Inl (LogBefore LogID (VisitLog trackable)), st)))"
  using assms parsed_exists(1) [OF assms(3)] parsed_exists(2) [OF assms(1)]
  by (simp add: InsertTrackable_def RemoveTrackable_def assertLogExists_def
      assertTrackableExists_def Let_def)

theorem temporal_order_witness:
  "InsertTrackable alice ''t1'' ''l0'' (ledger coinOut)
     = (Inl (LogBefore ''l0'' ''l1''), ledger coinOut)
   \<and> RemoveTrackable alice ''t1'' ''l0'' (ledger coin)
     = (Inl (LogBefore ''l0'' ''l1''), ledger coin)
   \<and> \<not> (\<exists>a b. fst (InsertTrackable alice ''t1'' ''l4'' (ledger coinOut)) = Inl (LogBefore a b))
   \<and> \<not> (\<exists>a b. fst (RemoveTrackable alice ''t1'' ''l2'' (ledger coin)) = Inl (LogBefore a b))"
proof -
  have vl: "VisitLog coin = ''l1''" "VisitLog coinOut = ''l1''"
    "Inserted coin" "\<not> Inserted coinOut"
    by (simp_all add: coin_def coinOut_def)
  have u: "User earlierLog = ''alice''" "User firstLog = ''alice''" "User sameSiteLog = ''alice''"
    "User laterLog = ''alice''"
    by (simp_all add: earlierLog_def firstLog_def sameSiteLog_def laterLog_def)
  have t: "Time earlierLog \<le> Time firstLog" "\<not> Time sameSiteLog \<le> Time firstLog"
    "\<not> Time laterLog \<le> Time firstLog"
    by (simp_all add: earlierLog_def firstLog_def sameSiteLog_def laterLog_def)
  have 1: "InsertTrackable alice ''t1'' ''l0'' (ledger coinOut)
     = (Inl (LogBefore ''l0'' ''l1''), ledger coinOut)"
    using temporal_order [of "ledger coinOut" "''t1''" coinOut firstLog "''l0''" earlierLog alice]
    by (simp add: ledger_parsed vl u t getUserID_alice)
  have 2: "RemoveTrackable alice ''t1'' ''l0'' (ledger coin)
     = (Inl (LogBefore ''l0'' ''l1''), ledger coin)"
    using temporal_order [of "ledger coin" "''t1''" coin firstLog "''l0''" earlierLog alice]
    by (simp add: ledger_parsed vl u t getUserID_alice)
  have 3: "\<not> (\<exists>a b. fst (InsertTrackable alice ''t1'' ''l4'' (ledger coinOut)) = Inl (LogBefore a b))"
    using temporal_order [of "ledger coinOut" "''t1''" coinOut firstLog "''l4''" sameSiteLog alice]
    by (simp add: ledger_parsed vl u t getUserID_alice)
  have 4: "\<not> (\<exists>a b. fst (RemoveTrackable alice ''t1'' ''l2'' (ledger coin)) = Inl (LogBefore a b))"
    using temporal_order [of "ledger coin" "''t1''" coin firstLog "''l2''" laterLog alice]
    by (simp add: ledger_parsed vl u t getUserID_alice)
  from 1 2 3 4 show ?thesis by simp
qed

subsection \<open>C5: the maintainer of a cache\<close>

text \<open>
  Claim C5. For every existing cache record, a successful \<open>UpdateCache\<close> or
  \<open>ReportCache\<close> returns and writes back a record whose \<open>Maintainer\<close> is the \<open>Maintainer\<close>
  stored before, whatever arguments the caller supplies.
\<close>

theorem maintainer_immutable:
  assumes "deserializeCache (getState st (makeCacheID CacheID)) = Inr stored"
  shows "(fst (UpdateCache ctx CacheID name description gpsx gpsy pass report st) = Inr cache \<longrightarrow>
            Maintainer cache = Maintainer stored
            \<and> (\<exists>written.
                 deserializeCache
                   (getState (snd (UpdateCache ctx CacheID name description gpsx gpsy pass report st))
                      (makeCacheID CacheID)) = Inr written
                 \<and> Maintainer written = Maintainer stored))
       \<and> (fst (ReportCache ctx' CacheID report' st) = Inr cache' \<longrightarrow>
            Maintainer cache' = Maintainer stored
            \<and> (\<exists>written.
                 deserializeCache
                   (getState (snd (ReportCache ctx' CacheID report' st)) (makeCacheID CacheID))
                     = Inr written
                 \<and> Maintainer written = Maintainer stored))"
proof -
  have ex: "CacheExists st CacheID"
    using assms by (rule parsed_exists)
  have u: "fst (UpdateCache ctx CacheID name description gpsx gpsy pass report st) = Inr cache \<longrightarrow>
            Maintainer cache = Maintainer stored
            \<and> (\<exists>written.
                 deserializeCache
                   (getState (snd (UpdateCache ctx CacheID name description gpsx gpsy pass report st))
                      (makeCacheID CacheID)) = Inr written
                 \<and> Maintainer written = Maintainer stored)"
    using assms ex
    by (auto simp: UpdateCache_def assertCacheExists_def Let_def getState_def putState_def
        castCache_serializeCache split: sum.splits)
  have r: "fst (ReportCache ctx' CacheID report' st) = Inr cache' \<longrightarrow>
            Maintainer cache' = Maintainer stored
            \<and> (\<exists>written.
                 deserializeCache
                   (getState (snd (ReportCache ctx' CacheID report' st)) (makeCacheID CacheID))
                     = Inr written
                 \<and> Maintainer written = Maintainer stored)"
    using assms ex
    by (auto simp: ReportCache_def assertCacheExists_def Let_def getState_def putState_def
        newObject_def hideHiddenValues_eq castCache_serializeCache)
  from u r show ?thesis by blast
qed

theorem maintainer_immutable_witness:
  "fst (UpdateCache alice ''c1'' ''Renamed'' ''Moved'' (Finite 1) (Finite 2) ''pw'' ''dry'' siteWorld)
     = Inr \<lparr>Cache.ID = ''c1'', Name = ''Renamed'', Description = ''Moved'', GPSX = Finite 1,
              GPSY = Finite 2, Report = ''dry'', Pass = ''pw'', Maintainer = ''alice''\<rparr>
   \<and> (\<exists>written.
        deserializeCache
          (getState (snd (UpdateCache alice ''c1'' ''Renamed'' ''Moved'' (Finite 1) (Finite 2)
                            ''pw'' ''dry'' siteWorld)) (makeCacheID ''c1'')) = Inr written
        \<and> Maintainer written = ''alice'')
   \<and> fst (ReportCache bob ''c1'' ''wet'' siteWorld) = Inr (site\<lparr>Report := ''wet'', Pass := ''''\<rparr>)
   \<and> (\<exists>written.
        deserializeCache (getState (snd (ReportCache bob ''c1'' ''wet'' siteWorld)) (makeCacheID ''c1''))
          = Inr written
        \<and> Maintainer written = ''alice'')"
proof -
  have m: "Maintainer site = ''alice''"
    by (simp add: site_def)
  have u: "fst (UpdateCache alice ''c1'' ''Renamed'' ''Moved'' (Finite 1) (Finite 2) ''pw'' ''dry'' siteWorld)
     = Inr \<lparr>Cache.ID = ''c1'', Name = ''Renamed'', Description = ''Moved'', GPSX = Finite 1,
              GPSY = Finite 2, Report = ''dry'', Pass = ''pw'', Maintainer = ''alice''\<rparr>"
    using siteWorld_exists siteWorld_parsed
    by (simp add: UpdateCache_def assertCacheExists_def assertMaintainer_def getUserID_alice m Let_def)
  have r: "fst (ReportCache bob ''c1'' ''wet'' siteWorld) = Inr (site\<lparr>Report := ''wet'', Pass := ''''\<rparr>)"
    using siteWorld_exists siteWorld_parsed
    by (simp add: ReportCache_def assertCacheExists_def newObject_def hideHiddenValues_eq
        getUserID_bob m Let_def) (simp add: site_def)
  from u r m maintainer_immutable [OF siteWorld_parsed,
      of alice "''Renamed''" "''Moved''" "Finite 1" "Finite 2" "''pw''" "''dry''" _
         bob "''wet''"]
  show ?thesis by simp
qed

subsection \<open>C6: creating a cache and reading it\<close>

text \<open>
  Claim C6. For every successful \<open>CreateCache\<close> by the identity \<open>u\<close>, a \<open>GetCache\<close> of that
  id in the resulting world state returns a record whose \<open>Maintainer\<close> is \<open>u\<close>, whose
  \<open>Pass\<close> is the password supplied when the reader is \<open>u\<close>, and whose \<open>Pass\<close> is the empty
  string for every other reader.
\<close>

theorem create_then_read:
  assumes "CreateCache ctx CacheID name description gpsx gpsy pass st = (Inr cache, st')"
    and "getUserID ctx = Inr u"
    and "getUserID ctx' = Inr u'"
  shows "\<exists>shown. GetCache ctx' CacheID st' = (Inr shown, st')
           \<and> Maintainer shown = u
           \<and> Pass shown = (if u' = u then pass else '''')"
proof -
  let ?c = "\<lparr>Cache.ID = CacheID, Name = name, Description = description,
             GPSX = gpsx, GPSY = gpsy, Report = '''', Pass = pass, Maintainer = u\<rparr>"
  from assms(1,2) have st': "st' = putState st (makeCacheID CacheID) (serializeCache ?c)"
    by (auto simp: CreateCache_def Let_def split: sum.splits)
  have "deserializeCache (getState st' (makeCacheID CacheID))
          = Inr (?c\<lparr>GPSX := reread gpsx, GPSY := reread gpsy\<rparr>)"
    by (simp add: st' getState_def putState_def castCache_serializeCache)
  from GetCache_stored [OF this, of ctx'] assms(3) show ?thesis
    by auto
qed

theorem create_then_read_witness:
  "CreateCache alice ''c1'' ''Cache'' ''Desc'' (Finite 10) (Finite 20) ''secret'' genesis
     = (Inr site, siteWorld)
   \<and> (\<exists>shown. GetCache alice ''c1'' siteWorld = (Inr shown, siteWorld)
         \<and> Maintainer shown = ''alice'' \<and> Pass shown = ''secret'')
   \<and> (\<exists>shown. GetCache bob ''c1'' siteWorld = (Inr shown, siteWorld)
         \<and> Maintainer shown = ''alice'' \<and> Pass shown = '''')"
proof -
  have c: "CreateCache alice ''c1'' ''Cache'' ''Desc'' (Finite 10) (Finite 20) ''secret'' genesis
     = (Inr site, siteWorld)"
    by (simp add: CreateCache_def assertCacheNotExists_def CacheExists_def getState_def
        genesis_def getUserID_alice siteWorld_def site_def Let_def)
  from create_then_read [OF c getUserID_alice getUserID_alice]
    create_then_read [OF c getUserID_alice getUserID_bob] c
  show ?thesis by simp
qed

subsection \<open>C7: insertion between logs of one user\<close>

text \<open>
  Claim C7. For every \<open>InsertTrackable\<close> call on an existing trackable that is not
  inserted, with an existing new log: if the \<open>User\<close> of the trackable's current log
  differs from the \<open>User\<close> of the new log, the operation fails with the error of a
  trackable not owned by that user, and the world state is as before.
\<close>

theorem insert_needs_same_user:
  assumes "deserializeTrackable (getState st (makeTrackableID TrackableID)) = Inr trackable"
    and "\<not> Inserted trackable"
    and "deserializeLog (getState st (makeLogID (VisitLog trackable))) = Inr oldVisitLog"
    and "deserializeLog (getState st (makeLogID LogID)) = Inr newVisitLog"
    and "User oldVisitLog \<noteq> User newVisitLog"
  shows "InsertTrackable ctx TrackableID LogID st
           = (Inl (NotOwnedBy TrackableID (User newVisitLog)), st)"
  using assms parsed_exists(1) [OF assms(4)] parsed_exists(2) [OF assms(1)]
  by (simp add: InsertTrackable_def assertLogExists_def assertTrackableExists_def)

theorem insert_needs_same_user_witness:
  "InsertTrackable bob ''t1'' ''l3'' (ledger coinOut)
     = (Inl (NotOwnedBy ''t1'' ''bob''), ledger coinOut)"
proof -
  have f: "VisitLog coinOut = ''l1''" "\<not> Inserted coinOut"
    "User firstLog = ''alice''" "User bobsLog = ''bob''"
    by (simp_all add: coinOut_def firstLog_def bobsLog_def)
  show ?thesis
    using insert_needs_same_user [of "ledger coinOut" "''t1''" coinOut firstLog "''l3''" bobsLog bob]
    by (simp add: ledger_parsed f)
qed

subsection \<open>C8: removal at the same cache\<close>

text \<open>
  Claim C8. For every \<open>RemoveTrackable\<close> call that passes the existence, inserted-state,
  caller and temporal checks: if the \<open>Cache\<close> of the new log differs from the \<open>Cache\<close> of
  the old log, the operation fails with the error of different caches, and the world
  state is as before.
\<close>

theorem remove_needs_same_cache:
  assumes "deserializeTrackable (getState st (makeTrackableID TrackableID)) = Inr trackable"
    and "Inserted trackable"
    and "deserializeLog (getState st (makeLogID (VisitLog trackable))) = Inr oldVisitLog"
    and "deserializeLog (getState st (makeLogID LogID)) = Inr newVisitLog"
    and "getUserID ctx = Inr (User newVisitLog)"
    and "\<not> Time newVisitLog \<le> Time oldVisitLog"
    and "Cache newVisitLog \<noteq> Cache oldVisitLog"
  shows "RemoveTrackable ctx TrackableID LogID st
           = (Inl (DifferentCaches TrackableID LogID), st)"
  using assms parsed_exists(1) [OF assms(4)] parsed_exists(2) [OF assms(1)]
  by (simp add: RemoveTrackable_def assertLogExists_def assertTrackableExists_def)

theorem remove_needs_same_cache_witness:
  "RemoveTrackable alice ''t1'' ''l2'' (ledger coin)
     = (Inl (DifferentCaches ''t1'' ''l2''), ledger coin)"
proof -
  have f: "VisitLog coin = ''l1''" "Inserted coin" "User laterLog = ''alice''"
    "\<not> Time laterLog \<le> Time firstLog" "Cache laterLog = ''c2''" "Cache firstLog = ''c1''"
    by (simp_all add: coin_def firstLog_def laterLog_def)
  show ?thesis
    using remove_needs_same_cache [of "ledger coin" "''t1''" coin firstLog "''l2''" laterLog alice]
    by (simp add: ledger_parsed getUserID_alice f)
qed

subsection \<open>C9: the serialization round trip\<close>

text \<open>
  Claim C9. Serialization round trip: for every record of each kind (Cache, VisitLog,
  Trackable), reading back what the serializer wrote and serializing again gives the
  same document as the first serialization.
\<close>

theorem serialize_round_trip:
  "(\<exists>cache'. deserializeCache (Some (serializeCache cache)) = Inr cache'
       \<and> serializeCache cache' = serializeCache cache)
   \<and> (\<exists>visitLog'. deserializeLog (Some (serializeLog visitLog)) = Inr visitLog'
       \<and> serializeLog visitLog' = serializeLog visitLog)
   \<and> (\<exists>trackable'. deserializeTrackable (Some (serializeTrackable trackable)) = Inr trackable'
       \<and> serializeTrackable trackable' = serializeTrackable trackable)"
proof -
  have "serializeCache (cache\<lparr>GPSX := reread (GPSX cache), GPSY := reread (GPSY cache)\<rparr>)
          = serializeCache cache"
    by (simp add: serializeCache_eq jsonNumber_reread)
  then have c: "\<exists>cache'. deserializeCache (Some (serializeCache cache)) = Inr cache'
       \<and> serializeCache cache' = serializeCache cache"
    using deserializeCache_serializeCache by blast
  have "serializeLog (visitLog\<lparr>Trackables := map_option sort (Trackables visitLog)\<rparr>)
          = serializeLog visitLog"
    by (cases "Trackables visitLog") (simp_all add: serializeLog_eq sort_sort)
  then have l: "\<exists>visitLog'. deserializeLog (Some (serializeLog visitLog)) = Inr visitLog'
       \<and> serializeLog visitLog' = serializeLog visitLog"
    using deserializeLog_serializeLog by blast
  have t: "\<exists>trackable'. deserializeTrackable (Some (serializeTrackable trackable)) = Inr trackable'
       \<and> serializeTrackable trackable' = serializeTrackable trackable"
    using deserializeTrackable_serializeTrackable by blast
  from c l t show ?thesis by blast
qed

subsection \<open>C10: a visit log without its sequence of tags\<close>

text \<open>
  Claim C10. If the \<open>Trackables\<close> field of a stored visit log is absent, then
  \<open>CreateTrackable\<close>, \<open>InsertTrackable\<close> and \<open>RemoveTrackable\<close> still succeed when their
  preconditions hold: the missing sequence is taken as empty, and the log written back
  has as its \<open>Trackables\<close> exactly the one-element sequence of the new movement tag.
\<close>

theorem missing_trackables_as_empty:
  assumes "deserializeLog (getState st (makeLogID LogID)) = Inr newVisitLog"
    and "Trackables newVisitLog = None"
    and "getUserID ctx = Inr (User newVisitLog)"
  shows "(\<not> TrackableExists st TrackableID \<longrightarrow>
           (\<exists>made st'. CreateTrackable ctx TrackableID LogID name st = (Inr made, st')
              \<and> deserializeLog (getState st' (makeLogID (VisitLog.ID newVisitLog)))
                  = Inr (newVisitLog\<lparr>Trackables := Some [TrackableID @ ''-IN'']\<rparr>)))
       \<and> (\<forall>trackable oldVisitLog.
            deserializeTrackable (getState st (makeTrackableID TrackableID)) = Inr trackable
            \<and> deserializeLog (getState st (makeLogID (VisitLog trackable))) = Inr oldVisitLog
            \<and> Time oldVisitLog < Time newVisitLog \<longrightarrow>
              (\<not> Inserted trackable \<and> User oldVisitLog = User newVisitLog \<longrightarrow>
                 (\<exists>moved st'. InsertTrackable ctx TrackableID LogID st = (Inr moved, st')
                    \<and> deserializeLog (getState st' (makeLogID (VisitLog.ID newVisitLog)))
                        = Inr (newVisitLog\<lparr>Trackables := Some [TrackableID @ ''-IN'']\<rparr>)))
              \<and> (Inserted trackable \<and> Cache newVisitLog = Cache oldVisitLog \<longrightarrow>
                 (\<exists>moved st'. RemoveTrackable ctx TrackableID LogID st = (Inr moved, st')
                    \<and> deserializeLog (getState st' (makeLogID (VisitLog.ID newVisitLog)))
                        = Inr (newVisitLog\<lparr>Trackables := Some [TrackableID @ ''-OUT'']\<rparr>))))"
proof -
  have ex: "LogExists st LogID"
    using assms(1) by (rule parsed_exists)
  have c: "\<not> TrackableExists st TrackableID \<longrightarrow>
           (\<exists>made st'. CreateTrackable ctx TrackableID LogID name st = (Inr made, st')
              \<and> deserializeLog (getState st' (makeLogID (VisitLog.ID newVisitLog)))
                  = Inr (newVisitLog\<lparr>Trackables := Some [TrackableID @ ''-IN'']\<rparr>))"
    using assms ex
    by (simp add: CreateTrackable_def assertLogExists_def assertTrackableNotExists_def Let_def
        read_back_log)
  have i: "\<exists>moved st'. InsertTrackable ctx TrackableID LogID st = (Inr moved, st')
                    \<and> deserializeLog (getState st' (makeLogID (VisitLog.ID newVisitLog)))
                        = Inr (newVisitLog\<lparr>Trackables := Some [TrackableID @ ''-IN'']\<rparr>)"
    if "deserializeTrackable (getState st (makeTrackableID TrackableID)) = Inr trackable"
      and "deserializeLog (getState st (makeLogID (VisitLog trackable))) = Inr oldVisitLog"
      and "Time oldVisitLog < Time newVisitLog"
      and "\<not> Inserted trackable" and "User oldVisitLog = User newVisitLog"
    for trackable oldVisitLog
  proof -
    have "TrackableExists st TrackableID"
      using that(1) by (rule parsed_exists)
    moreover have "\<not> Time newVisitLog \<le> Time oldVisitLog"
      using that(3) by simp
    ultimately show ?thesis
      using assms ex that
      by (simp add: InsertTrackable_def assertLogExists_def assertTrackableExists_def Let_def
          read_back_log)
  qed
  have r: "\<exists>moved st'. RemoveTrackable ctx TrackableID LogID st = (Inr moved, st')
                    \<and> deserializeLog (getState st' (makeLogID (VisitLog.ID newVisitLog)))
                        = Inr (newVisitLog\<lparr>Trackables := Some [TrackableID @ ''-OUT'']\<rparr>)"
    if "deserializeTrackable (getState st (makeTrackableID TrackableID)) = Inr trackable"
      and "deserializeLog (getState st (makeLogID (VisitLog trackable))) = Inr oldVisitLog"
      and "Time oldVisitLog < Time newVisitLog"
      and "Inserted trackable" and "Cache newVisitLog = Cache oldVisitLog"
    for trackable oldVisitLog
  proof -
    have "TrackableExists st TrackableID"
      using that(1) by (rule parsed_exists)
    moreover have "\<not> Time newVisitLog \<le> Time oldVisitLog"
      using that(3) by simp
    ultimately show ?thesis
      using assms ex that
      by (simp add: RemoveTrackable_def assertLogExists_def assertTrackableExists_def Let_def
          read_back_log)
  qed
  from c i r show ?thesis by blast
qed

theorem missing_trackables_as_empty_witness:
  "(\<exists>made st'. CreateTrackable alice ''t2'' ''l5'' ''Pin'' (ledger coin) = (Inr made, st')
       \<and> deserializeLog (getState st' (makeLogID ''l5''))
           = Inr (bareLog\<lparr>Trackables := Some [''t2-IN'']\<rparr>))
   \<and> (\<exists>moved st'. InsertTrackable alice ''t1'' ''l5'' (ledger coinOut) = (Inr moved, st')
       \<and> deserializeLog (getState st' (makeLogID ''l5''))
           = Inr (bareLog\<lparr>Trackables := Some [''t1-IN'']\<rparr>))
   \<and> (\<exists>moved st'. RemoveTrackable alice ''t1'' ''l5'' (ledger coin) = (Inr moved, st')
       \<and> deserializeLog (getState st' (makeLogID ''l5''))
           = Inr (bareLog\<lparr>Trackables := Some [''t1-OUT'']\<rparr>))"
proof -
  have b: "Trackables bareLog = None" "User bareLog = ''alice''" "VisitLog.ID bareLog = ''l5''"
    "Cache bareLog = ''c1''"
    by (simp_all add: bareLog_def)
  have f: "User firstLog = ''alice''" "Cache firstLog = ''c1''" "Time firstLog < Time bareLog"
    by (simp_all add: firstLog_def bareLog_def)
  have t: "VisitLog coin = ''l1''" "VisitLog coinOut = ''l1''" "Inserted coin" "\<not> Inserted coinOut"
    by (simp_all add: coin_def coinOut_def)
  have n: "\<not> TrackableExists (ledger coin) ''t2''"
    by (simp add: TrackableExists_def getState_def ledger_def putState_def logWorld_def
        storeLog_def siteWorld_def genesis_def makeTrackableID_def makeLogID_def makeCacheID_def
        coin_def)
  have 1: "\<exists>made st'. CreateTrackable alice ''t2'' ''l5'' ''Pin'' (ledger coin) = (Inr made, st')
       \<and> deserializeLog (getState st' (makeLogID ''l5''))
           = Inr (bareLog\<lparr>Trackables := Some [''t2-IN'']\<rparr>)"
    using missing_trackables_as_empty
      [of "ledger coin" "''l5''" bareLog alice "''t2''" "''Pin''", THEN conjunct1] n
    by (simp add: ledger_parsed getUserID_alice b)
  have 2: "\<exists>moved st'. InsertTrackable alice ''t1'' ''l5'' (ledger coinOut) = (Inr moved, st')
       \<and> deserializeLog (getState st' (makeLogID ''l5''))
           = Inr (bareLog\<lparr>Trackables := Some [''t1-IN'']\<rparr>)"
    using missing_trackables_as_empty
      [of "ledger coinOut" "''l5''" bareLog alice "''t1''" "''Pin''", THEN conjunct2,
        THEN spec, THEN spec, of coinOut firstLog]
    by (simp add: ledger_parsed getUserID_alice b f t)
  have 3: "\<exists>moved st'. RemoveTrackable alice ''t1'' ''l5'' (ledger coin) = (Inr moved, st')
       \<and> deserializeLog (getState st' (makeLogID ''l5''))
           = Inr (bareLog\<lparr>Trackables := Some [''t1-OUT'']\<rparr>)"
    using missing_trackables_as_empty
      [of "ledger coin" "''l5''" bareLog alice "''t1''" "''Pin''", THEN conjunct2,
        THEN spec, THEN spec, of coin firstLog]
    by (simp add: ledger_parsed getUserID_alice b f t)
  from 1 2 3 show ?thesis by blast
qed

end
